theory Spec2Isabelle
  imports Main
begin

section \<open>JavaScript values and strings\<close>

text \<open>
  The front end is TypeScript running in a browser. A value parsed from a response body
  (\<^verbatim>\<open>await response.json()\<close>) is untyped at run time, so it is modelled as a JavaScript
  value: the JSON values, and \<open>JUndefined\<close> for the result of reading a property that is
  absent. Numbers are the integer-valued ones; the code only tests them for truthiness.
  Strings are lists of code units below 256.
\<close>

datatype jsval =
    JUndefined
  | JNull
  | JBool bool
  | JNum int
  | JStr string
  | JArr "jsval list"
  | JObj "(string \<times> jsval) list"

text \<open>What a \<^verbatim>\<open>throw\<close> or a rejected promise carries: an \<^verbatim>\<open>Error\<close> instance with its
  message, or some other value (\<^verbatim>\<open>error instanceof Error\<close> is false).\<close>

datatype thrown = ErrorObj string | NonError

text \<open>JavaScript truthiness (\<^verbatim>\<open>if (v)\<close>, \<^verbatim>\<open>!v\<close>, \<^verbatim>\<open>a || b\<close>).\<close>

fun truthy :: "jsval \<Rightarrow> bool" where
  "truthy JUndefined = False"
| "truthy JNull = False"
| "truthy (JBool b) = b"
| "truthy (JNum n) = (n \<noteq> 0)"
| "truthy (JStr s) = (s \<noteq> [])"
| "truthy (JArr vs) = True"
| "truthy (JObj kvs) = True"

text \<open>\<^verbatim>\<open>a || b\<close>.\<close>

definition js_or :: "jsval \<Rightarrow> jsval \<Rightarrow> jsval" where
  "js_or a b = (if truthy a then a else b)"

text \<open>The message of the TypeError raised by reading property \<open>k\<close> of \<^verbatim>\<open>null\<close> or
  \<^verbatim>\<open>undefined\<close> (the wording of V8).\<close>

definition read_error :: "jsval \<Rightarrow> string \<Rightarrow> thrown" where
  "read_error v k =
     ErrorObj (''Cannot read properties of ''
       @ (if v = JNull then ''null'' else ''undefined'')
       @ '' (reading '' @ [CHR 0x27] @ k @ [CHR 0x27] @ '')'')"

text \<open>
  \<^verbatim>\<open>v.k\<close> for the property names the code reads from parsed bodies (\<^verbatim>\<open>chatbot_answer\<close>,
  \<^verbatim>\<open>response\<close>, \<^verbatim>\<open>answer\<close>, \<^verbatim>\<open>text\<close>, \<^verbatim>\<open>detail\<close>, \<^verbatim>\<open>message\<close>): none of them is a
  property of a string, number, boolean or array, so only an object can have one. Reading
  from \<^verbatim>\<open>null\<close> or \<^verbatim>\<open>undefined\<close> throws. \<^verbatim>\<open>JSON.parse\<close> keeps the last of duplicate keys.
\<close>

definition get_prop :: "jsval \<Rightarrow> string \<Rightarrow> thrown + jsval" where
  "get_prop v k =
     (case v of
        JUndefined \<Rightarrow> Inl (read_error v k)
      | JNull \<Rightarrow> Inl (read_error v k)
      | JObj kvs \<Rightarrow> Inr (case map_of (rev kvs) k of None \<Rightarrow> JUndefined | Some x \<Rightarrow> x)
      | _ \<Rightarrow> Inr JUndefined)"

text \<open>\<^verbatim>\<open>v.k\<close> where an earlier read of a property of \<open>v\<close> has not thrown, so that this one
  does not either.\<close>

definition read_prop :: "jsval \<Rightarrow> string \<Rightarrow> jsval" where
  "read_prop v k = (case get_prop v k of Inl t \<Rightarrow> JUndefined | Inr x \<Rightarrow> x)"

text \<open>White space as \<^verbatim>\<open>String.prototype.trim\<close> sees it, among the code units below 256:
  TAB, LF, VT, FF, CR, space and the no-break space.\<close>

definition js_whitespace :: "char \<Rightarrow> bool" where
  "js_whitespace c = (of_char c \<in> {9, 10, 11, 12, 13, 32, 160 :: nat})"

definition trim :: "string \<Rightarrow> string" where
  "trim s = rev (dropWhile js_whitespace (rev (dropWhile js_whitespace s)))"

text \<open>\<^verbatim>\<open>n.toString()\<close> and \<^verbatim>\<open>`${n}`\<close> for a natural number: its decimal digits.\<close>

definition digit :: "nat \<Rightarrow> char" where
  "digit d = char_of (48 + d)"

function string_of_nat :: "nat \<Rightarrow> string" where
  "string_of_nat n =
     (if n < 10 then [digit n] else string_of_nat (n div 10) @ [digit (n mod 10)])"
  by pat_completeness auto
termination
  by (relation "measure (\<lambda>n. n)") auto

declare string_of_nat.simps [simp del]

section \<open>The browser around a page\<close>

text \<open>A \<^verbatim>\<open>File\<close>: its name, its MIME type and its bytes.\<close>

record ufile =
  file_name :: string
  file_type :: string
  file_bytes :: "nat list"

datatype form_value = FText string | FFile ufile

record request =
  req_url :: string
  req_method :: string
  req_headers :: "(string \<times> string) list"
  req_body :: "(string \<times> form_value) list option"

text \<open>A response: its status and what \<^verbatim>\<open>await response.json()\<close> gives, a parsed body or
  the error the promise rejects with. \<^verbatim>\<open>response.ok\<close> is a status in 200..299.\<close>

record 'b response =
  status :: nat
  json_body :: "thrown + 'b"

definition ok :: "'b response \<Rightarrow> bool" where
  "ok r = (200 \<le> status r \<and> status r \<le> 299)"

datatype 'b fetch_result = Rejected thrown | Resolved "'b response"

record toast =
  title :: string
  description :: jsval
  variant :: "string option"

text \<open>The mutable world a handler acts on: the \<^verbatim>\<open>token\<close> item of local storage, and the
  logs of what the handler did, oldest first: \<^verbatim>\<open>router.push\<close> calls, toasts shown and
  requests sent.\<close>

record browser =
  token :: "string option"
  pushed :: "string list"
  toasts :: "toast list"
  requests :: "request list"

text \<open>What a handler reads and does not change: the build-time variable
  \<^verbatim>\<open>NEXT_PUBLIC_API_URL\<close>; whether \<^verbatim>\<open>window\<close> exists, and \<^verbatim>\<open>window.location\<close>'s host name and
  path; the clock (\<open>clock k\<close> is the \<open>k\<close>-th reading of \<^verbatim>\<open>Date.now()\<close> or \<^verbatim>\<open>new Date()\<close> in
  one run of a handler, in epoch milliseconds); \<^verbatim>\<open>Date\<close>'s ISO rendering of an instant and
  its parser of a string (\<open>None\<close> is an invalid date); the engine's string conversion of a
  value that is not a string; and the identifier \<^verbatim>\<open>chat-<now>-<random>\<close> generated for the
  \<open>k\<close>-th chat of a list.\<close>

record env =
  NEXT_PUBLIC_API_URL :: "string option"
  isBrowser :: bool
  hostname :: string
  pathname :: string
  clock :: "nat \<Rightarrow> nat"
  toISOString :: "nat \<Rightarrow> string"
  parse_date :: "string \<Rightarrow> nat option"
  engine_ToString :: "jsval \<Rightarrow> thrown + string"
  random_id :: "nat \<Rightarrow> string"

definition API_URL :: "env \<Rightarrow> string" where
  "API_URL e =
     (case NEXT_PUBLIC_API_URL e of
        None \<Rightarrow> ''http://localhost:8000''
      | Some u \<Rightarrow> if u = [] then ''http://localhost:8000'' else u)"

definition ToString :: "env \<Rightarrow> jsval \<Rightarrow> thrown + string" where
  "ToString e v = (case v of JStr s \<Rightarrow> Inr s | _ \<Rightarrow> engine_ToString e v)"

text \<open>\<^verbatim>\<open>throw new Error(v)\<close>: the message is the string conversion of \<open>v\<close>, which can
  itself throw.\<close>

definition throw_Error :: "env \<Rightarrow> jsval \<Rightarrow> thrown" where
  "throw_Error e v = (case ToString e v of Inl t \<Rightarrow> t | Inr s \<Rightarrow> ErrorObj s)"

text \<open>\<^verbatim>\<open>!token\<close> on the result of \<^verbatim>\<open>localStorage.getItem("token")\<close>: \<^verbatim>\<open>null\<close> and the empty
  string are both falsy.\<close>

definition no_token :: "string option \<Rightarrow> bool" where
  "no_token t = (case t of None \<Rightarrow> True | Some s \<Rightarrow> s = [])"

definition router_push :: "string \<Rightarrow> browser \<Rightarrow> browser" where
  "router_push p br = br\<lparr>pushed := pushed br @ [p]\<rparr>"

definition show_toast :: "toast \<Rightarrow> browser \<Rightarrow> browser" where
  "show_toast t br = br\<lparr>toasts := toasts br @ [t]\<rparr>"

definition send :: "request \<Rightarrow> browser \<Rightarrow> browser" where
  "send r br = br\<lparr>requests := requests br @ [r]\<rparr>"

definition bearer :: "string \<Rightarrow> (string \<times> string) list" where
  "bearer t = [(''Authorization'', ''Bearer '' @ t)]"

section \<open>The chat pages\<close>

text \<open>
  \<^verbatim>\<open>app/dashboard/chat/[project]/page.tsx\<close> (a new conversation) and
  \<^verbatim>\<open>app/dashboard/chat/[project]/[id]/page.tsx\<close> (the conversation \<^verbatim>\<open>id\<close>).
\<close>

datatype role = User | Assistant

record Message =
  m_id :: string
  m_role :: role
  m_content :: jsval
  m_timestamp :: string

record chat_state =
  messages :: "Message list"
  input :: string
  isLoading :: bool
  isInitialLoading :: bool
  \<comment> \<open>the last one exists on the \<^verbatim>\<open>[id]\<close> page only\<close>

text \<open>Lines 74-84 of the \<^verbatim>\<open>[project]\<close> page and 179-191 of the \<^verbatim>\<open>[id]\<close> page: the form
  data and the request. \<open>route_id\<close> is \<open>None\<close> on the \<^verbatim>\<open>[project]\<close> page and the route's
  \<^verbatim>\<open>id\<close> on the \<^verbatim>\<open>[id]\<close> page, which appends it as \<^verbatim>\<open>vector_id\<close>.\<close>

definition chat_formData :: "string option \<Rightarrow> string \<Rightarrow> string \<Rightarrow> (string \<times> form_value) list" where
  "chat_formData route_id project inp =
     [(''user_query'', FText inp), (''project_name'', FText project)]
     @ (case route_id of None \<Rightarrow> [] | Some i \<Rightarrow> [(''vector_id'', FText i)])"

definition chat_request :: "env \<Rightarrow> string option \<Rightarrow> string \<Rightarrow> string \<Rightarrow> string \<Rightarrow> request" where
  "chat_request e route_id project inp tok =
     \<lparr>req_url = API_URL e @ ''/chat'', req_method = ''POST'', req_headers = bearer tok,
      req_body = Some (chat_formData route_id project inp)\<rparr>"

text \<open>Lines 94-107 (201-214): the answer text is looked for under four names in turn,
  then in the body itself when it is a string; the initial value stays otherwise.\<close>

definition responseText :: "jsval \<Rightarrow> thrown + jsval" where
  "responseText data =
     (case get_prop data ''chatbot_answer'' of
        Inl t \<Rightarrow> Inl t
      | Inr chatbot_answer \<Rightarrow>
          Inr (if truthy chatbot_answer then chatbot_answer
               else if truthy (read_prop data ''response'') then read_prop data ''response''
               else if truthy (read_prop data ''answer'') then read_prop data ''answer''
               else if truthy (read_prop data ''text'') then read_prop data ''text''
               else (case data of JStr s \<Rightarrow> data
                     | _ \<Rightarrow> JStr ''I couldn't find an answer to that question.'')))"

text \<open>The names under which the answer text is looked for, in the order of the source;
  the first truthy property among a list of names; and the initial value of
  \<^verbatim>\<open>responseText\<close> (line 95), which stays when nothing is found.\<close>

definition answer_fields :: "string list" where
  "answer_fields = [''chatbot_answer'', ''response'', ''answer'', ''text'']"

fun first_truthy :: "jsval \<Rightarrow> string list \<Rightarrow> jsval option" where
  "first_truthy data [] = None"
| "first_truthy data (k # ks) =
     (case get_prop data k of
        Inl t \<Rightarrow> None
      | Inr v \<Rightarrow> if truthy v then Some v else first_truthy data ks)"

definition placeholder :: jsval where
  "placeholder = JStr ''I couldn't find an answer to that question.''"

text \<open>Lines 78-107 (185-214), after the request is sent: what the \<^verbatim>\<open>try\<close> block computes
  from the outcome of \<^verbatim>\<open>fetch\<close>, the answer text or what it throws.\<close>

definition chat_try :: "env \<Rightarrow> jsval fetch_result \<Rightarrow> thrown + jsval" where
  "chat_try e res =
     (case res of
        Rejected t \<Rightarrow> Inl t
      | Resolved r \<Rightarrow>
          if \<not> ok r then
            (case json_body r of
               Inl t \<Rightarrow> Inl t
             | Inr errorData \<Rightarrow>
                 (case get_prop errorData ''detail'' of
                    Inl t \<Rightarrow> Inl t
                  | Inr detail \<Rightarrow>
                      Inl (throw_Error e (js_or detail (JStr ''Failed to get response'')))))
          else
            (case json_body r of
               Inl t \<Rightarrow> Inl t
             | Inr data \<Rightarrow> responseText data))"

text \<open>The three messages \<^verbatim>\<open>handleSubmit\<close> builds (lines 56-61, 109-114 and 124-129), and the
  toast of its \<^verbatim>\<open>catch\<close> block (lines 118-122).\<close>

definition userMessage :: "env \<Rightarrow> string \<Rightarrow> Message" where
  "userMessage e inp =
     \<lparr>m_id = string_of_nat (clock e 0), m_role = User, m_content = JStr inp,
      m_timestamp = toISOString e (clock e 1)\<rparr>"

definition assistantMessage :: "env \<Rightarrow> jsval \<Rightarrow> Message" where
  "assistantMessage e text =
     \<lparr>m_id = string_of_nat (clock e 2), m_role = Assistant, m_content = text,
      m_timestamp = toISOString e (clock e 3)\<rparr>"

definition errorMessage :: "env \<Rightarrow> Message" where
  "errorMessage e =
     \<lparr>m_id = string_of_nat (clock e 2), m_role = Assistant,
      m_content = JStr ''Sorry, I encountered an error processing your request.'',
      m_timestamp = toISOString e (clock e 3)\<rparr>"

definition error_toast :: "thrown \<Rightarrow> toast" where
  "error_toast err =
     \<lparr>title = ''Error'',
      description = JStr (case err of ErrorObj m \<Rightarrow> m | NonError \<Rightarrow> ''Failed to get a response''),
      variant = Some ''destructive''\<rparr>"

text \<open>
  \<^verbatim>\<open>handleSubmit\<close> of both chat pages, on the page state and the browser; \<open>net\<close> is what
  the network answers to a request. The run is taken as one step: no other handler runs
  between its \<^verbatim>\<open>await\<close>s.
\<close>

definition handleSubmit ::
  "string option \<Rightarrow> string \<Rightarrow> env \<Rightarrow> (request \<Rightarrow> jsval fetch_result)
     \<Rightarrow> chat_state \<times> browser \<Rightarrow> chat_state \<times> browser" where
  "handleSubmit route_id project e net sb =
     (let st = fst sb; br = snd sb in
      if trim (input st) = [] then (st, br)
      else
        let st1 = st\<lparr>messages := messages st @ [userMessage e (input st)],
                     input := [], isLoading := True\<rparr>
        in
          if no_token (token br) then (st1\<lparr>isLoading := False\<rparr>, router_push ''/login'' br)
          else
            let req = chat_request e route_id project (input st) (the (token br));
                br1 = send req br
            in (case chat_try e (net req) of
                  Inr text \<Rightarrow>
                    (st1\<lparr>messages := messages st1 @ [assistantMessage e text],
                          isLoading := False\<rparr>,
                     br1)
                | Inl err \<Rightarrow>
                    (st1\<lparr>messages := messages st1 @ [errorMessage e], isLoading := False\<rparr>,
                     show_toast (error_toast err) br1)))"

subsection \<open>Loading a conversation: \<^verbatim>\<open>fetchChatHistory\<close> of the \<^verbatim>\<open>[id]\<close> page\<close>

record ChatHistoryItem =
  user_query :: string
  chatbot_answer :: string

record ChatData =
  project_name :: string
  vector_id :: string
  chat_history :: "ChatHistoryItem list"
  timestamp :: string

text \<open>The \<^verbatim>\<open>Chat\<close> interface of the dashboard layout: \<^verbatim>\<open>ChatData\<close> with an optional \<^verbatim>\<open>id\<close>
  (a string or a number, \<open>JUndefined\<close> when absent) and an optional \<^verbatim>\<open>last_message\<close>.\<close>

record Chat = ChatData +
  chat_id :: jsval
  last_message :: "string option"

text \<open>
  The parsed body of \<^verbatim>\<open>GET /get_chats\<close>, by the shapes the code tells apart: an object
  whose \<^verbatim>\<open>chats\<close> is an array, an array, any other value that is not \<^verbatim>\<open>null\<close>, and \<^verbatim>\<open>null\<close>
  (reading \<^verbatim>\<open>data.chats\<close> then throws). The elements are taken to have the declared
  interface.
\<close>

datatype chats_payload =
    WithChats "Chat list"
  | BareArray "Chat list"
  | OtherShape
  | NullBody

definition welcomeMessage :: "env \<Rightarrow> string \<Rightarrow> Message" where
  "welcomeMessage e project =
     \<lparr>m_id = ''welcome'', m_role = Assistant,
      m_content = JStr (''Welcome to the '' @ project
                          @ '' project! Ask me anything about your documents.''),
      m_timestamp = toISOString e (clock e 0)\<rparr>"

definition get_chats_request :: "env \<Rightarrow> string \<Rightarrow> request" where
  "get_chats_request e tok =
     \<lparr>req_url = API_URL e @ ''/get_chats'', req_method = ''GET'', req_headers = bearer tok,
      req_body = None\<rparr>"

text \<open>\<^verbatim>\<open>new Date(chatData?.timestamp || Date.now())\<close>, as the \<open>k\<close>-th reading of the clock
  when the stored time stamp is empty; \<open>None\<close> is an invalid date, whose \<^verbatim>\<open>toISOString()\<close>
  throws a RangeError.\<close>

definition stamp :: "env \<Rightarrow> string \<Rightarrow> nat \<Rightarrow> nat option" where
  "stamp e ts k = (if ts = [] then Some (clock e k) else parse_date e ts)"

text \<open>Lines 89-108: the two messages pushed for the history item at \<open>index\<close>.\<close>

definition item_messages :: "env \<Rightarrow> string \<Rightarrow> nat \<times> ChatHistoryItem \<Rightarrow> Message list" where
  "item_messages e ts p =
     (case p of (index, item) \<Rightarrow>
        [\<lparr>m_id = ''user-'' @ string_of_nat index, m_role = User,
          m_content = JStr (user_query item),
          m_timestamp = toISOString e (the (stamp e ts (2 * index)))\<rparr>,
         \<lparr>m_id = ''assistant-'' @ string_of_nat index, m_role = Assistant,
          m_content = JStr (chatbot_answer item),
          m_timestamp = toISOString e (the (stamp e ts (2 * index + 1)))\<rparr>])"

definition convertedMessages :: "env \<Rightarrow> 'a ChatData_scheme \<Rightarrow> thrown + Message list" where
  "convertedMessages e chatData =
     (if chat_history chatData \<noteq> [] \<and> stamp e (timestamp chatData) 0 = None
      then Inl (ErrorObj ''Invalid time value'')
      else Inr (concat (map (item_messages e (timestamp chatData))
                          (enumerate 0 (chat_history chatData)))))"

text \<open>Lines 55-122: the \<^verbatim>\<open>try\<close> block after the request is sent. The result is the
  message list to show, or what was thrown.\<close>

definition history_try ::
  "env \<Rightarrow> string \<Rightarrow> string \<Rightarrow> chats_payload fetch_result \<Rightarrow> thrown + Message list" where
  "history_try e project ident res =
     (case res of
        Rejected t \<Rightarrow> Inl t
      | Resolved r \<Rightarrow>
          if \<not> ok r then Inl (ErrorObj ''Failed to fetch chat history'')
          else
            (case json_body r of
               Inl t \<Rightarrow> Inl t
             | Inr NullBody \<Rightarrow> Inl (read_error JNull ''chats'')
             | Inr data \<Rightarrow>
                 (case (case data of WithChats cs \<Rightarrow> find (\<lambda>chat. vector_id chat = ident) cs
                        | _ \<Rightarrow> None) of
                    None \<Rightarrow> Inr [welcomeMessage e project]
                  | Some chatData \<Rightarrow>
                      (case convertedMessages e chatData of
                         Inl t \<Rightarrow> Inl t
                       | Inr ms \<Rightarrow> if length ms > 0 then Inr ms else Inr [welcomeMessage e project]))))"

definition fetchChatHistory ::
  "string \<Rightarrow> string \<Rightarrow> env \<Rightarrow> (request \<Rightarrow> chats_payload fetch_result)
     \<Rightarrow> chat_state \<times> browser \<Rightarrow> chat_state \<times> browser" where
  "fetchChatHistory project ident e net sb =
     (let st = fst sb; br = snd sb in
      if no_token (token br)
      then (st\<lparr>isInitialLoading := False\<rparr>, router_push ''/login'' br)
      else
        let req = get_chats_request e (the (token br)); br1 = send req br in
        (case history_try e project ident (net req) of
           Inr ms \<Rightarrow> (st\<lparr>messages := ms, isInitialLoading := False\<rparr>, br1)
         | Inl err \<Rightarrow>
             (st\<lparr>messages := [welcomeMessage e project], isInitialLoading := False\<rparr>,
              show_toast \<lparr>title = ''Error'', description = JStr ''Failed to load chat history'',
                          variant = Some ''destructive''\<rparr> br1)))"

section \<open>The upload page\<close>

text \<open>\<^verbatim>\<open>UploadPage\<close> of \<^verbatim>\<open>app/dashboard/upload/page.tsx\<close>.\<close>

record upload_state =
  projectName :: string
  files :: "ufile list"
  isUploading :: bool

text \<open>Lines 79-92: the form data and the request.\<close>

definition upload_formData :: "string \<Rightarrow> ufile list \<Rightarrow> (string \<times> form_value) list" where
  "upload_formData name fs =
     (''project_name'', FText name) # map (\<lambda>file. (''files_data'', FFile file)) fs"

definition upload_request :: "env \<Rightarrow> string \<Rightarrow> ufile list \<Rightarrow> string \<Rightarrow> request" where
  "upload_request e name fs tok =
     \<lparr>req_url = API_URL e @ ''/data-ingest'', req_method = ''POST'', req_headers = bearer tok,
      req_body = Some (upload_formData name fs)\<rparr>"

text \<open>Lines 86-106, after the request is sent: the description of the success toast, or
  what was thrown.\<close>

definition upload_try :: "env \<Rightarrow> jsval fetch_result \<Rightarrow> thrown + jsval" where
  "upload_try e res =
     (case res of
        Rejected t \<Rightarrow> Inl t
      | Resolved r \<Rightarrow>
          if \<not> ok r then
            (case json_body r of
               Inl t \<Rightarrow> Inl t
             | Inr errorData \<Rightarrow>
                 (case get_prop errorData ''detail'' of
                    Inl t \<Rightarrow> Inl t
                  | Inr detail \<Rightarrow>
                      Inl (throw_Error e (js_or detail (JStr ''Failed to upload files'')))))
          else
            (case json_body r of
               Inl t \<Rightarrow> Inl t
             | Inr data \<Rightarrow>
                 (case get_prop data ''message'' of
                    Inl t \<Rightarrow> Inl t
                  | Inr message \<Rightarrow> Inr (js_or message (JStr ''Files uploaded successfully'')))))"

definition upload_handleSubmit ::
  "env \<Rightarrow> (request \<Rightarrow> jsval fetch_result) \<Rightarrow> upload_state \<times> browser \<Rightarrow> upload_state \<times> browser" where
  "upload_handleSubmit e net sb =
     (let st = fst sb; br = snd sb in
      if trim (projectName st) = [] then
        (st, show_toast \<lparr>title = ''Project name required'',
                         description = JStr ''Please enter a project name'',
                         variant = Some ''destructive''\<rparr> br)
      else if length (files st) = 0 then
        (st, show_toast \<lparr>title = ''No files selected'',
                         description = JStr ''Please select at least one file to upload'',
                         variant = Some ''destructive''\<rparr> br)
      else if no_token (token br) then
        (st\<lparr>isUploading := False\<rparr>, router_push ''/login'' br)
      else
        let req = upload_request e (projectName st) (files st) (the (token br));
            br1 = send req br
        in (case upload_try e (net req) of
              Inr msg \<Rightarrow>
                (st\<lparr>isUploading := False\<rparr>,
                 router_push (''/dashboard/chat/'' @ projectName st)
                   (show_toast \<lparr>title = ''Upload successful'', description = msg,
                                variant = None\<rparr> br1))
            | Inl err \<Rightarrow>
                (st\<lparr>isUploading := False\<rparr>,
                 show_toast
                   \<lparr>title = ''Upload failed'',
                    description = JStr (case err of ErrorObj m \<Rightarrow> m
                                        | NonError \<Rightarrow> ''An error occurred during upload''),
                    variant = Some ''destructive''\<rparr> br1)))"

section \<open>The dashboard layout\<close>

text \<open>\<^verbatim>\<open>DashboardLayout\<close>, the second component of \<^verbatim>\<open>app/dashboard/upload/page.tsx\<close>.\<close>

record layout_state =
  chats :: "Chat list"
  chatsLoading :: bool
  \<comment> \<open>the layout's own \<^verbatim>\<open>isLoading\<close>\<close>
  error :: "string option"

text \<open>\<^verbatim>\<open>pathname.split("/")\<close> and \<^verbatim>\<open>pathParts.indexOf(x)\<close> (\<open>None\<close> is \<^verbatim>\<open>-1\<close>).\<close>

fun split_slash :: "string \<Rightarrow> string list" where
  "split_slash [] = [[]]"
| "split_slash (c # cs) =
     (if c = CHR ''/'' then [] # split_slash cs
      else (case split_slash cs of [] \<Rightarrow> [[c]] | w # ws \<Rightarrow> (c # w) # ws))"

fun indexOf :: "'a list \<Rightarrow> 'a \<Rightarrow> nat option" where
  "indexOf [] x = None"
| "indexOf (y # ys) x = (if y = x then Some 0 else map_option Suc (indexOf ys x))"

text \<open>Lines 321-337 and 348-364: the chat made up for the project of the current path,
  when the path has a segment after a \<^verbatim>\<open>chat\<close> segment.\<close>

definition defaultChats :: "env \<Rightarrow> Chat list option" where
  "defaultChats e =
     (let pathParts = split_slash (pathname e) in
      case indexOf pathParts ''chat'' of
        None \<Rightarrow> None
      | Some projectIndex \<Rightarrow>
          if length pathParts > projectIndex + 1 then
            Some [\<lparr>project_name = pathParts ! (projectIndex + 1), vector_id = ''default'',
                   chat_history = [], timestamp = toISOString e (clock e 0),
                   chat_id = JStr ''default'', last_message = Some ''New conversation''\<rparr>]
          else None)"

text \<open>Lines 302-307: the preview of a chat, commented in the source as "the most recent
  message (which is the first in the array)".\<close>

definition lastMessage :: "'a ChatData_scheme \<Rightarrow> string" where
  "lastMessage chat =
     (case chat_history chat of
        [] \<Rightarrow> ''New conversation''
      | item # rest \<Rightarrow>
          if user_query item = [] then ''New conversation'' else user_query item)"

text \<open>Lines 298-314: the callback of \<^verbatim>\<open>chatsList.map\<close>, on the \<open>k\<close>-th chat.\<close>

definition normalizeChat :: "env \<Rightarrow> nat \<times> Chat \<Rightarrow> Chat" where
  "normalizeChat e p =
     (case p of (k, chat) \<Rightarrow>
        chat\<lparr>chat_id := js_or (chat_id chat) (js_or (JStr (vector_id chat)) (JStr (random_id e k))),
             last_message := Some (lastMessage chat)\<rparr>)"

text \<open>Lines 266-314: the \<^verbatim>\<open>try\<close> block after the request is sent, up to the normalised
  list. \<open>Inr None\<close> is the early return on status 401.\<close>

definition fetchChats_try :: "env \<Rightarrow> chats_payload fetch_result \<Rightarrow> thrown + Chat list option" where
  "fetchChats_try e res =
     (case res of
        Rejected t \<Rightarrow> Inl t
      | Resolved r \<Rightarrow>
          if \<not> ok r then
            (if status r = 401 then Inr None
             else Inl (ErrorObj (''Failed to fetch chats: '' @ string_of_nat (status r))))
          else
            (case json_body r of
               Inl t \<Rightarrow> Inl t
             | Inr NullBody \<Rightarrow> Inl (read_error JNull ''chats'')
             | Inr data \<Rightarrow>
                 (let chatsList = (case data of WithChats cs \<Rightarrow> cs | BareArray cs \<Rightarrow> cs | _ \<Rightarrow> [])
                  in Inr (Some (map (normalizeChat e) (enumerate 0 chatsList))))))"

text \<open>Line 341: the message the \<^verbatim>\<open>catch\<close> block of \<^verbatim>\<open>fetchChats\<close> reports.\<close>

definition fetchChats_message :: "thrown \<Rightarrow> string" where
  "fetchChats_message err = (case err of ErrorObj m \<Rightarrow> m | NonError \<Rightarrow> ''Unknown error'')"

definition fetchChats ::
  "env \<Rightarrow> string \<Rightarrow> (request \<Rightarrow> chats_payload fetch_result)
     \<Rightarrow> layout_state \<times> browser \<Rightarrow> layout_state \<times> browser" where
  "fetchChats e tok net sb =
     (let st = fst sb; br = snd sb;
          req = get_chats_request e tok; br1 = send req br
      in (case fetchChats_try e (net req) of
            Inr None \<Rightarrow>
              (st\<lparr>chatsLoading := False\<rparr>, router_push ''/login'' (br1\<lparr>token := None\<rparr>))
          | Inr (Some normalizedChats) \<Rightarrow>
              (st\<lparr>chats := (if length normalizedChats = 0
                              then (case defaultChats e of None \<Rightarrow> normalizedChats | Some d \<Rightarrow> d)
                              else normalizedChats),
                   chatsLoading := False\<rparr>,
               br1)
          | Inl err \<Rightarrow>
              (let msg = fetchChats_message err in
               (st\<lparr>chats := (case defaultChats e of None \<Rightarrow> chats st | Some d \<Rightarrow> d),
                    error := Some msg, chatsLoading := False\<rparr>,
                show_toast \<lparr>title = ''Error'',
                            description = JStr (''Failed to load chat history: '' @ msg),
                            variant = Some ''destructive''\<rparr> br1))))"

text \<open>Lines 253-371: the effect run when the layout mounts.\<close>

definition DashboardLayout_effect ::
  "env \<Rightarrow> (request \<Rightarrow> chats_payload fetch_result)
     \<Rightarrow> layout_state \<times> browser \<Rightarrow> layout_state \<times> browser" where
  "DashboardLayout_effect e net sb =
     (if no_token (token (snd sb)) then (fst sb, router_push ''/login'' (snd sb))
      else fetchChats e (the (token (snd sb))) net sb)"



section \<open>\<^verbatim>\<open>lib/config.ts\<close>\<close>

text \<open>\<^verbatim>\<open>s.includes(p)\<close>: \<open>p\<close> occurs in \<open>s\<close> as a contiguous piece.\<close>

fun js_includes :: "string \<Rightarrow> string \<Rightarrow> bool" where
  "js_includes [] p = (p = [])"
| "js_includes (c # cs) p = (take (length p) (c # cs) = p \<or> js_includes cs p)"

definition isPreviewEnvironment :: "env \<Rightarrow> bool" where
  "isPreviewEnvironment e =
     (if \<not> isBrowser e then False
      else js_includes (hostname e) ''vercel.app''
         \<or> js_includes (hostname e) ''localhost''
         \<or> js_includes (hostname e) ''127.0.0.1'')"

text \<open>
  How the \<^verbatim>\<open>fetch\<close> of \<^verbatim>\<open>isApiReachable\<close> ends: with a response, with a rejection, or with
  the abort of the 3000 ms timer, which fired before the fetch settled (the fetch then
  rejects with an AbortError).
\<close>

datatype probe = ProbeResolved "jsval response" | ProbeRejected thrown | ProbeAborted

record reach =
  returned :: "thrown + bool"
  sent :: "request list"
  timers :: "nat list"
  warnings :: "string list"

definition probe_request :: "env \<Rightarrow> request" where
  "probe_request e =
     \<lparr>req_url = API_URL e, req_method = ''GET'',
      req_headers = [(''Cache-Control'', ''no-cache, no-store, must-revalidate''),
                     (''Pragma'', ''no-cache''), (''Expires'', ''0'')],
      req_body = None\<rparr>"

text \<open>Lines 31-46: the \<^verbatim>\<open>try\<close> block.\<close>

definition probe_try :: "probe \<Rightarrow> thrown + bool" where
  "probe_try outcome =
     (case outcome of
        ProbeResolved r \<Rightarrow> Inr (ok r)
      | ProbeRejected t \<Rightarrow> Inl t
      | ProbeAborted \<Rightarrow> Inl (ErrorObj ''The user aborted a request.''))"

definition isApiReachable :: "env \<Rightarrow> (request \<Rightarrow> probe) \<Rightarrow> reach" where
  "isApiReachable e net =
     (if \<not> isBrowser e then \<lparr>returned = Inr False, sent = [], timers = [], warnings = []\<rparr>
      else if isPreviewEnvironment e
      then \<lparr>returned = Inr False, sent = [], timers = [], warnings = []\<rparr>
      else
        (case probe_try (net (probe_request e)) of
           Inr b \<Rightarrow> \<lparr>returned = Inr b, sent = [probe_request e], timers = [3000], warnings = []\<rparr>
         | Inl err \<Rightarrow>
             \<lparr>returned = Inr False, sent = [probe_request e], timers = [3000],
              warnings = (if \<not> isPreviewEnvironment e then [''API not reachable: '' @ API_URL e]
                          else [])\<rparr>))"

section \<open>The per-project vector store\<close>

text \<open>
  The back end (the ingestion pipeline, the vector store adapter and the project registry)
  is not among the sources; of \<^verbatim>\<open>rag_backend\<close> only the container set-up and the
  dependency list are. The definitions of this section follow sections 3, 4.4, 4.5 and 4.6
  of the specification.
\<close>

datatype store_error = ProjectNotFound | DimensionMismatch

text \<open>Modelled from the spec: the Chunk of section 3 (the back end's chunk type is
  missing): a generated identity, the text, the embedding, the ordinal position and the
  source project.\<close>

record chunk =
  chunk_id :: nat
  chunk_text :: string
  embedding :: "int list"
  ordinal :: nat
  source_project :: string

text \<open>Modelled from the spec: the Project/Collection Registry and the store behind the
  Vector Store Adapter (both missing): the registry maps a project name to its collection
  identity, each collection holds its records, identities are generated from counters, and
  the collection's dimensionality is the Embedder's fixed output size.\<close>

record vstore =
  registry :: "string \<rightharpoonup> nat"
  collections :: "nat \<Rightarrow> chunk list"
  next_collection :: nat
  next_chunk :: nat
  dimension :: nat

text \<open>Modelled from the spec: the store before any ingestion (the back end's start-up is
  missing): no project is registered.\<close>

definition empty_store :: "nat \<Rightarrow> vstore" where
  "empty_store d =
     \<lparr>registry = Map.empty, collections = (\<lambda>c. []), next_collection = 0, next_chunk = 0,
      dimension = d\<rparr>"

text \<open>Modelled from the spec: \<^verbatim>\<open>ensure_collection(project) -> collection_id\<close> of section 4.4
  (missing): idempotent; creates the collection if absent, reuses it if present.\<close>

definition ensure_collection :: "vstore \<Rightarrow> string \<Rightarrow> nat \<times> vstore" where
  "ensure_collection st p =
     (case registry st p of
        Some c \<Rightarrow> (c, st)
      | None \<Rightarrow>
          (next_collection st,
           st\<lparr>registry := (registry st)(p \<mapsto> next_collection st),
              collections := (collections st)(next_collection st := []),
              next_collection := Suc (next_collection st)\<rparr>))"

text \<open>Modelled from the spec: \<^verbatim>\<open>upsert(collection_id, records)\<close> of section 4.4 (missing):
  atomic per call, all records land or none; a record whose vector length differs from
  the collection's dimensionality is rejected with \<^verbatim>\<open>DimensionMismatch\<close>. A record replaces
  the stored one of the same identity.\<close>

definition upsert :: "vstore \<Rightarrow> nat \<Rightarrow> chunk list \<Rightarrow> store_error + vstore" where
  "upsert st c records =
     (if list_all (\<lambda>r. length (embedding r) = dimension st) records
      then Inr (st\<lparr>collections := (collections st)
                  (c := filter (\<lambda>x. chunk_id x \<notin> chunk_id ` set records) (collections st c)
                        @ records)\<rparr>)
      else Inl DimensionMismatch)"

text \<open>Modelled from the spec: the chunks the Ingestion Pipeline of section 4.5 (missing)
  derives from one file, given the texts the Chunker produced and the vectors the Embedder
  gave them: each gets a generated identity, its ordinal position and its source
  project.\<close>

definition make_chunks :: "string \<Rightarrow> nat \<Rightarrow> (string \<times> int list) list \<Rightarrow> chunk list" where
  "make_chunks p base embedded =
     map (\<lambda>(i, (t, v)). \<lparr>chunk_id = base + i, chunk_text = t, embedding = v, ordinal = i,
                          source_project = p\<rparr>)
       (enumerate 0 embedded)"

text \<open>Modelled from the spec: \<^verbatim>\<open>ingest\<close> of section 4.5 (missing) on one file, after loading,
  chunking and embedding: the project's collection is ensured and the file's chunk batch
  is upserted in one atomic call. On failure nothing of the file is stored.\<close>

definition ingest_file :: "vstore \<Rightarrow> string \<Rightarrow> (string \<times> int list) list \<Rightarrow> store_error + vstore" where
  "ingest_file st p embedded =
     (case ensure_collection st p of (c, st1) \<Rightarrow>
        (case upsert st1 c (make_chunks p (next_chunk st1) embedded) of
           Inl err \<Rightarrow> Inl err
         | Inr st2 \<Rightarrow> Inr (st2\<lparr>next_chunk := next_chunk st1 + length embedded\<rparr>)))"

text \<open>Modelled from the spec: \<^verbatim>\<open>ingest(project, files[])\<close> of section 4.5 (missing): files
  are processed independently, a failing file does not abort its siblings, and the caller
  gets a per-file report, the chunk count or the failure.\<close>

fun ingest :: "vstore \<Rightarrow> string \<Rightarrow> (string \<times> int list) list list
                 \<Rightarrow> (store_error + nat) list \<times> vstore" where
  "ingest st p [] = ([], st)"
| "ingest st p (f # fs) =
     (case ingest_file st p f of
        Inl err \<Rightarrow> (case ingest st p fs of (outcomes, st') \<Rightarrow> (Inl err # outcomes, st'))
      | Inr st1 \<Rightarrow> (case ingest st1 p fs of (outcomes, st') \<Rightarrow> (Inr (length f) # outcomes, st')))"

text \<open>Modelled from the spec: \<^verbatim>\<open>delete_collection(project)\<close> of section 4.4 (missing):
  removes all vectors of the project; a no-op on a project without a collection.\<close>

definition delete_collection :: "vstore \<Rightarrow> string \<Rightarrow> vstore" where
  "delete_collection st p =
     (case registry st p of
        None \<Rightarrow> st
      | Some c \<Rightarrow> st\<lparr>registry := (registry st)(p := None),
                     collections := (collections st)(c := [])\<rparr>)"

text \<open>Modelled from the spec: the vector similarity of section 4.4's nearest-neighbour
  search (the provider's measure is missing), as the inner product.\<close>

definition similarity :: "int list \<Rightarrow> int list \<Rightarrow> int" where
  "similarity q v = sum_list (map2 (*) q v)"

text \<open>Modelled from the spec: \<^verbatim>\<open>search\<close> of section 4.4 behind step 1 and step 3 of section
  4.6 (missing): the project is resolved through the registry, \<^verbatim>\<open>ProjectNotFound\<close> if it
  has no collection; the collection's records are ranked by similarity to the query
  vector; with a re-ranker, an oversampled candidate set (4 times \<open>k\<close>) is re-ordered by
  the re-ranker's score; the result is truncated to \<open>k\<close>.\<close>

definition search ::
  "vstore \<Rightarrow> string \<Rightarrow> int list \<Rightarrow> nat \<Rightarrow> (chunk \<Rightarrow> int) option
     \<Rightarrow> store_error + (chunk \<times> int) list" where
  "search st p q k rerank =
     (case registry st p of
        None \<Rightarrow> Inl ProjectNotFound
      | Some c \<Rightarrow>
          (let ranked = sort_key (\<lambda>x. - similarity q (embedding x)) (collections st c) in
           case rerank of
             None \<Rightarrow> Inr (map (\<lambda>x. (x, similarity q (embedding x))) (take k ranked))
           | Some score \<Rightarrow>
               Inr (map (\<lambda>x. (x, score x))
                      (take k (sort_key (\<lambda>x. - score x) (take (4 * k) ranked))))))"

text \<open>Modelled from the spec: the stores the back end can be in (its request handling is
  missing): the empty one, and what ingestions of a file and deletions make of one.\<close>

inductive reachable :: "vstore \<Rightarrow> bool" where
  start: "reachable (empty_store d)"
| ingested: "reachable st \<Longrightarrow> ingest_file st p embedded = Inr st' \<Longrightarrow> reachable st'"
| deleted: "reachable st \<Longrightarrow> reachable (delete_collection st p)"




section \<open>Example inputs\<close>

text \<open>An environment: a browser on a project's chat page. Its ISO rendering is a
  stand-in that prints the epoch milliseconds, and its parser knows one date.\<close>

definition example_env :: env where
  "example_env =
     \<lparr>NEXT_PUBLIC_API_URL = None, isBrowser = True, hostname = ''rag.example.com'',
      pathname = ''/dashboard/chat/demo'', clock = (\<lambda>k. 1000 + k),
      toISOString = string_of_nat,
      parse_date = (\<lambda>s. if s = ''2025-05-01T10:00:00Z'' then Some 1746093600000 else None),
      engine_ToString = (\<lambda>v. Inr ''[object Object]''),
      random_id = (\<lambda>k. ''chat-'' @ string_of_nat k)\<rparr>"

definition example_chat :: chat_state where
  "example_chat =
     \<lparr>messages = [], input = ''What is X?'', isLoading = False, isInitialLoading = False\<rparr>"

definition example_browser :: browser where
  "example_browser = \<lparr>token = Some ''jwt'', pushed = [], toasts = [], requests = []\<rparr>"

text \<open>A network that answers every request with the given status and parsed body.\<close>

definition reply :: "nat \<Rightarrow> 'b \<Rightarrow> request \<Rightarrow> 'b fetch_result" where
  "reply code data req = Resolved \<lparr>status = code, json_body = Inr data\<rparr>"

definition probe_reply :: "nat \<Rightarrow> request \<Rightarrow> probe" where
  "probe_reply code req = ProbeResolved \<lparr>status = code, json_body = Inr JNull\<rparr>"

definition example_upload :: upload_state where
  "example_upload =
     \<lparr>projectName = ''demo'',
      files = [\<lparr>file_name = ''notes.txt'', file_type = ''text/plain'', file_bytes = [104, 105]\<rparr>],
      isUploading = False\<rparr>"

definition example_layout :: layout_state where
  "example_layout = \<lparr>chats = [], chatsLoading = True, error = None\<rparr>"

definition example_conversation :: Chat where
  "example_conversation =
     \<lparr>project_name = ''demo'', vector_id = ''c1'',
      chat_history = [\<lparr>user_query = ''What is X?'', chatbot_answer = ''X is a letter.''\<rparr>,
                      \<lparr>user_query = ''And why?'', chatbot_answer = ''By convention.''\<rparr>],
      timestamp = ''2025-05-01T10:00:00Z'', chat_id = JUndefined, last_message = None\<rparr>"

definition alpha_chunk :: chunk where
  "alpha_chunk = \<lparr>chunk_id = 0, chunk_text = ''first text'', embedding = [1, 0], ordinal = 0,
                   source_project = ''alpha''\<rparr>"

definition beta_chunk :: chunk where
  "beta_chunk = \<lparr>chunk_id = 1, chunk_text = ''second text'', embedding = [0, 1], ordinal = 0,
                  source_project = ''beta''\<rparr>"

definition example_store1 :: vstore where
  "example_store1 =
     \<lparr>registry = [''alpha'' \<mapsto> 0], collections = (\<lambda>c. [])(0 := [alpha_chunk]),
      next_collection = 1, next_chunk = 1, dimension = 2\<rparr>"

definition example_store :: vstore where
  "example_store =
     \<lparr>registry = [''alpha'' \<mapsto> 0, ''beta'' \<mapsto> 1],
      collections = (\<lambda>c. [])(0 := [alpha_chunk], 1 := [beta_chunk]),
      next_collection = 2, next_chunk = 2, dimension = 2\<rparr>"

section \<open>Notions the properties are stated with\<close>

text \<open>The requests a handler added to the log.\<close>

definition new_requests :: "browser \<Rightarrow> browser \<Rightarrow> request list" where
  "new_requests br br' = drop (length (requests br)) (requests br')"



text \<open>What a history item is replayed as: the role and content of its two messages.\<close>

definition turn :: "ChatHistoryItem \<Rightarrow> (role \<times> jsval) list" where
  "turn item = [(User, JStr (user_query item)), (Assistant, JStr (chatbot_answer item))]"

section \<open>Properties\<close>

lemmas handler_defs = no_token_def send_def show_toast_def router_push_def ok_def trim_def
  js_whitespace_def js_or_def throw_Error_def ToString_def bearer_def API_URL_def get_prop_def
  read_error_def

lemmas chat_defs = handleSubmit_def chat_try_def responseText_def read_prop_def chat_request_def
  chat_formData_def userMessage_def assistantMessage_def errorMessage_def error_toast_def

lemmas example_defs = example_env_def example_chat_def example_browser_def reply_def

lemma all_dropWhile: "(\<forall>x \<in> set (dropWhile P s). P x) \<longleftrightarrow> (\<forall>x \<in> set s. P x)"
  by (induction s) auto

lemma trim_empty_iff: "trim s = [] \<longleftrightarrow> (\<forall>c \<in> set s. js_whitespace c)"
  by (simp add: trim_def all_dropWhile)

subsection \<open>Submitting a question\<close>

lemma handleSubmit_answered:
  assumes "trim (input st) \<noteq> []" and "\<not> no_token (token br)"
    and "chat_try e (net (chat_request e route_id project (input st) (the (token br)))) = Inr text"
  shows "handleSubmit route_id project e net (st, br) =
           (st\<lparr>messages := messages st @ [userMessage e (input st), assistantMessage e text],
               input := [], isLoading := False\<rparr>,
            send (chat_request e route_id project (input st) (the (token br))) br)"
  using assms by (simp add: handleSubmit_def Let_def)


lemma get_prop_total:
  "data \<noteq> JNull \<Longrightarrow> data \<noteq> JUndefined \<Longrightarrow> \<exists>v. get_prop data k = Inr v"
  by (cases data) (simp_all add: get_prop_def)

lemma responseText_first_truthy:
  assumes "data \<noteq> JNull" and "data \<noteq> JUndefined"
  shows "responseText data =
           Inr (case first_truthy data answer_fields of
                  Some v \<Rightarrow> v
                | None \<Rightarrow> (case data of JStr s \<Rightarrow> data | _ \<Rightarrow> placeholder))"
proof -
  obtain a b c d where g: "get_prop data ''chatbot_answer'' = Inr a"
    "get_prop data ''response'' = Inr b" "get_prop data ''answer'' = Inr c"
    "get_prop data ''text'' = Inr d"
    using get_prop_total [OF assms] by metis
  show ?thesis
    by (simp add: responseText_def read_prop_def answer_fields_def placeholder_def g split: jsval.split)
qed

text \<open>
  Claim C9. A chat form submitted with an empty or whitespace-only input returns at once:
  no request is sent, and the message list, the input field and the loading flag (with
  the rest of the page and of the browser) are as they were. It holds on both chat pages.
\<close>

theorem handleSubmit_blank_noop:
  assumes "\<forall>c \<in> set (input st). js_whitespace c"
  shows "handleSubmit route_id project e net (st, br) = (st, br)"
  using assms by (simp add: handleSubmit_def trim_empty_iff)

theorem handleSubmit_blank_noop_witness:
  "list_all js_whitespace (input (example_chat\<lparr>input := ''  ''\<rparr>))
   \<and> handleSubmit None ''demo'' example_env (reply 200 (JObj []))
        (example_chat\<lparr>input := ''  ''\<rparr>, example_browser)
      = (example_chat\<lparr>input := ''  ''\<rparr>, example_browser)"
proof -
  have h: "\<forall>c \<in> set (input (example_chat\<lparr>input := ''  ''\<rparr>)). js_whitespace c"
    by (simp add: js_whitespace_def)
  from handleSubmit_blank_noop [OF h] h show ?thesis
    by (simp add: list_all_iff)
qed

text \<open>
  Claim C1, as the code has it. When an ok response carries no recognisable answer text (its
  body is not \<^verbatim>\<open>null\<close>, is not a string, and has no truthy \<^verbatim>\<open>chatbot_answer\<close>, \<^verbatim>\<open>response\<close>,
  \<^verbatim>\<open>answer\<close> or \<^verbatim>\<open>text\<close>), the page appends the fixed text "I couldn't find an answer to that
  question." as an assistant message and shows no toast: no error is surfaced.
\<close>

theorem unrecognised_body_gets_placeholder:
  assumes "trim (input st) \<noteq> []" and "\<not> no_token (token br)"
    and "net (chat_request e route_id project (input st) (the (token br))) = Resolved r"
    and "ok r" and "json_body r = Inr data"
    and "data \<noteq> JNull" and "data \<noteq> JUndefined"
    and "first_truthy data answer_fields = None" and "\<forall>s. data \<noteq> JStr s"
  shows "handleSubmit route_id project e net (st, br) =
           (st\<lparr>messages := messages st @ [userMessage e (input st), assistantMessage e placeholder],
               input := [], isLoading := False\<rparr>,
            send (chat_request e route_id project (input st) (the (token br))) br)
         \<and> toasts (snd (handleSubmit route_id project e net (st, br))) = toasts br"
proof -
  have "responseText data = Inr placeholder"
    using assms(6-9) by (simp add: responseText_first_truthy split: jsval.split)
  then have "chat_try e (net (chat_request e route_id project (input st) (the (token br))))
               = Inr placeholder"
    using assms(3-5) by (simp add: chat_try_def)
  from handleSubmit_answered [where net = net, OF assms(1,2) this] show ?thesis
    by (simp add: send_def)
qed

theorem unrecognised_body_gets_placeholder_witness:
  "trim (input example_chat) \<noteq> [] \<and> \<not> no_token (token example_browser)
   \<and> ok \<lparr>status = 200, json_body = Inr (JObj [])\<rparr>
   \<and> first_truthy (JObj []) answer_fields = None
   \<and> handleSubmit None ''demo'' example_env (reply 200 (JObj [])) (example_chat, example_browser) =
       (example_chat\<lparr>messages := messages example_chat
            @ [userMessage example_env (input example_chat), assistantMessage example_env placeholder],
          input := [], isLoading := False\<rparr>,
        send (chat_request example_env None ''demo'' (input example_chat) (the (token example_browser)))
          example_browser)
   \<and> toasts (snd (handleSubmit None ''demo'' example_env (reply 200 (JObj []))
                    (example_chat, example_browser))) = toasts example_browser"
proof -
  have h1: "trim (input example_chat) \<noteq> []"
    by (simp add: example_chat_def trim_def js_whitespace_def)
  have h2: "\<not> no_token (token example_browser)"
    by (simp add: example_browser_def no_token_def)
  have h3: "reply 200 (JObj []) (chat_request example_env None ''demo'' (input example_chat)
              (the (token example_browser))) = Resolved \<lparr>status = 200, json_body = Inr (JObj [])\<rparr>"
    by (simp add: reply_def)
  have h4: "ok \<lparr>status = 200, json_body = Inr (JObj [])\<rparr>"
    by (simp add: ok_def)
  have h5: "first_truthy (JObj []) answer_fields = None"
    by (simp add: answer_fields_def get_prop_def)
  from unrecognised_body_gets_placeholder
         [where net = "reply 200 (JObj [])" and data = "JObj []", OF h1 h2 h3 h4 _ _ _ h5]
       h1 h2 h4 h5
  show ?thesis by (simp add: send_def)
qed

text \<open>
  Claim C1 as stated fails: an ok response with the empty object as body carries no answer
  text, and the user gets the placeholder as an assistant answer and no error.
\<close>

theorem placeholder_counterexample:
  "ok \<lparr>status = 200, json_body = Inr (JObj [])\<rparr>
   \<and> map m_role (messages (fst (handleSubmit None ''demo'' example_env (reply 200 (JObj []))
                                   (example_chat, example_browser))))
       = [User, Assistant]
   \<and> map m_content (messages (fst (handleSubmit None ''demo'' example_env (reply 200 (JObj []))
                                      (example_chat, example_browser))))
       = [JStr ''What is X?'', JStr ''I couldn't find an answer to that question.'']
   \<and> toasts (snd (handleSubmit None ''demo'' example_env (reply 200 (JObj []))
                    (example_chat, example_browser))) = []"
  by (simp add: chat_defs handler_defs example_defs)

text \<open>
  Claim C2, as the code has it. For an ok response whose body is not \<^verbatim>\<open>null\<close>, the answer shown
  is the first truthy one of the body's \<^verbatim>\<open>chatbot_answer\<close>, \<^verbatim>\<open>response\<close>, \<^verbatim>\<open>answer\<close> and \<^verbatim>\<open>text\<close>,
  in that order; failing those, the body itself when it is a string; failing that, the
  placeholder. No such body is rejected.
\<close>

theorem answer_text_by_sniffing:
  assumes "trim (input st) \<noteq> []" and "\<not> no_token (token br)"
    and "net (chat_request e route_id project (input st) (the (token br))) = Resolved r"
    and "ok r" and "json_body r = Inr data"
    and "data \<noteq> JNull" and "data \<noteq> JUndefined"
  shows "handleSubmit route_id project e net (st, br) =
           (st\<lparr>messages := messages st @
                  [userMessage e (input st),
                   assistantMessage e
                     (case first_truthy data answer_fields of
                        Some v \<Rightarrow> v
                      | None \<Rightarrow> (case data of JStr s \<Rightarrow> data | _ \<Rightarrow> placeholder))],
               input := [], isLoading := False\<rparr>,
            send (chat_request e route_id project (input st) (the (token br))) br)"
proof -
  have "chat_try e (net (chat_request e route_id project (input st) (the (token br))))
          = responseText data"
    using assms(3-5) by (simp add: chat_try_def)
  with responseText_first_truthy [OF assms(6,7)]
       handleSubmit_answered [where net = net and e = e, OF assms(1,2)]
  show ?thesis by simp
qed

theorem answer_text_by_sniffing_witness:
  "trim (input example_chat) \<noteq> [] \<and> \<not> no_token (token example_browser)
   \<and> ok \<lparr>status = 200, json_body = Inr (JObj [(''answer'', JStr ''Paris'')])\<rparr>
   \<and> handleSubmit None ''demo'' example_env (reply 200 (JObj [(''answer'', JStr ''Paris'')]))
        (example_chat, example_browser) =
       (example_chat\<lparr>messages := messages example_chat
            @ [userMessage example_env (input example_chat),
               assistantMessage example_env (JStr ''Paris'')],
          input := [], isLoading := False\<rparr>,
        send (chat_request example_env None ''demo'' (input example_chat) (the (token example_browser)))
          example_browser)"
proof -
  have h1: "trim (input example_chat) \<noteq> []"
    by (simp add: example_chat_def trim_def js_whitespace_def)
  have h2: "\<not> no_token (token example_browser)"
    by (simp add: example_browser_def no_token_def)
  have h3: "reply 200 (JObj [(''answer'', JStr ''Paris'')])
              (chat_request example_env None ''demo'' (input example_chat)
                 (the (token example_browser)))
            = Resolved \<lparr>status = 200, json_body = Inr (JObj [(''answer'', JStr ''Paris'')])\<rparr>"
    by (simp add: reply_def)
  have h4: "ok \<lparr>status = 200, json_body = Inr (JObj [(''answer'', JStr ''Paris'')])\<rparr>"
    by (simp add: ok_def)
  from answer_text_by_sniffing
         [where net = "reply 200 (JObj [(''answer'', JStr ''Paris'')])"
            and data = "JObj [(''answer'', JStr ''Paris'')]", OF h1 h2 h3 h4]
       h1 h2 h4
  show ?thesis by (simp add: answer_fields_def get_prop_def)
qed

text \<open>
  Claim C2 as stated fails: the answer text is accepted under \<^verbatim>\<open>chatbot_answer\<close> and under
  \<^verbatim>\<open>text\<close> alike, so whichever field the contract fixes, a body deviating from it is
  resolved by trying another name, without any error.
\<close>

theorem fixed_field_counterexample:
  "map m_content (messages (fst (handleSubmit None ''demo'' example_env
        (reply 200 (JObj [(''chatbot_answer'', JStr ''Paris'')])) (example_chat, example_browser))))
     = [JStr ''What is X?'', JStr ''Paris'']
   \<and> map m_content (messages (fst (handleSubmit None ''demo'' example_env
        (reply 200 (JObj [(''text'', JStr ''Paris'')])) (example_chat, example_browser))))
     = [JStr ''What is X?'', JStr ''Paris'']
   \<and> toasts (snd (handleSubmit None ''demo'' example_env
        (reply 200 (JObj [(''text'', JStr ''Paris'')])) (example_chat, example_browser))) = []"
  by (simp add: chat_defs handler_defs example_defs)

lemma requests_handleSubmit:
  assumes "trim (input st) \<noteq> []" and "\<not> no_token (token br)"
  shows "requests (snd (handleSubmit route_id project e net (st, br)))
           = requests br @ [chat_request e route_id project (input st) (the (token br))]"
  using assms
  by (simp add: handleSubmit_def Let_def send_def show_toast_def split: sum.split)

text \<open>
  Claim C6, as the code has it. Every question sent goes to \<^verbatim>\<open>/chat\<close> with exactly
  \<^verbatim>\<open>user_query\<close> (the input as typed) and \<^verbatim>\<open>project_name\<close>, and with \<^verbatim>\<open>vector_id\<close> exactly when
  it is submitted from the conversation route \<^verbatim>\<open>[project]/[id]\<close>, whose \<^verbatim>\<open>id\<close> it is; from the
  \<^verbatim>\<open>[project]\<close> route it carries no conversation identifier.
\<close>

theorem chat_payload:
  assumes "trim (input st) \<noteq> []" and "\<not> no_token (token br)"
  shows "\<exists>req. requests (snd (handleSubmit route_id project e net (st, br))) = requests br @ [req]
           \<and> req_url req = API_URL e @ ''/chat''
           \<and> req_body req =
               Some ([(''user_query'', FText (input st)), (''project_name'', FText project)]
                     @ (case route_id of None \<Rightarrow> [] | Some i \<Rightarrow> [(''vector_id'', FText i)]))"
  using requests_handleSubmit [OF assms]
  by (simp add: chat_request_def chat_formData_def)

theorem chat_payload_witness:
  "trim (input example_chat) \<noteq> [] \<and> \<not> no_token (token example_browser)
   \<and> map req_body (requests (snd (handleSubmit None ''demo'' example_env (reply 200 (JObj []))
                                     (example_chat, example_browser))))
       = [Some [(''user_query'', FText ''What is X?''), (''project_name'', FText ''demo'')]]"
proof -
  have h1: "trim (input example_chat) \<noteq> []"
    by (simp add: example_chat_def trim_def js_whitespace_def)
  have h2: "\<not> no_token (token example_browser)"
    by (simp add: example_browser_def no_token_def)
  from chat_payload [OF h1 h2, of None "''demo''" example_env "reply 200 (JObj [])"]
  obtain req where
    "requests (snd (handleSubmit None ''demo'' example_env (reply 200 (JObj []))
                      (example_chat, example_browser))) = requests example_browser @ [req]"
    and "req_body req =
           Some [(''user_query'', FText (input example_chat)), (''project_name'', FText ''demo'')]"
    by auto
  with h1 h2 show ?thesis
    by (simp add: example_browser_def example_chat_def)
qed

text \<open>
  Claim C6 as stated fails. With no stored conversation, the layout lists a made-up chat
  "New conversation" whose \<^verbatim>\<open>vector_id\<close> is \<^verbatim>\<open>default\<close>, and its link leads to the conversation
  route with that \<^verbatim>\<open>id\<close>. There the page finds no conversation and shows the welcome
  message, and the question still carries \<^verbatim>\<open>default\<close> as \<^verbatim>\<open>vector_id\<close>.
\<close>

theorem conversation_id_counterexample:
  "map vector_id (chats (fst (DashboardLayout_effect example_env (reply 200 (WithChats []))
                                (example_layout, example_browser))))
     = [''default'']
   \<and> map last_message (chats (fst (DashboardLayout_effect example_env (reply 200 (WithChats []))
                                      (example_layout, example_browser))))
     = [Some ''New conversation'']
   \<and> messages (fst (fetchChatHistory ''demo'' ''default'' example_env (reply 200 (WithChats []))
                      (example_chat, example_browser)))
     = [welcomeMessage example_env ''demo'']
   \<and> map req_body (requests (snd (handleSubmit (Some ''default'') ''demo'' example_env
                                     (reply 200 (JObj [])) (example_chat, example_browser))))
       = [Some [(''user_query'', FText ''What is X?''), (''project_name'', FText ''demo''),
                (''vector_id'', FText ''default'')]]"
  by (simp add: chat_defs handler_defs example_defs fetchChatHistory_def history_try_def
        get_chats_request_def DashboardLayout_effect_def fetchChats_def fetchChats_try_def
        defaultChats_def example_layout_def Let_def)

subsection \<open>Replaying a conversation\<close>

lemma replay_items:
  "map (\<lambda>m. (m_role m, m_content m)) (concat (map (item_messages e ts) (enumerate n items)))
     = concat (map turn items)"
  by (induction items arbitrary: n) (simp_all add: item_messages_def turn_def)

text \<open>
  The first part of claim C5: a stored conversation with a non-empty history whose time
  stamp is empty or parses is shown as its turns in stored order, each a user message with
  the query followed by an assistant message with the answer.
\<close>

lemma fetchChatHistory_replays:
  assumes "\<not> no_token (token br)"
    and "net (get_chats_request e (the (token br))) = Resolved r"
    and "ok r" and "json_body r = Inr (WithChats cs)"
    and "find (\<lambda>chat. vector_id chat = ident) cs = Some chatData"
    and "chat_history chatData \<noteq> []"
    and "stamp e (timestamp chatData) 0 \<noteq> None"
  shows "map (\<lambda>m. (m_role m, m_content m))
           (messages (fst (fetchChatHistory project ident e net (st, br))))
         = concat (map turn (chat_history chatData))"
proof -
  let ?ms = "concat (map (item_messages e (timestamp chatData)) (enumerate 0 (chat_history chatData)))"
  have c: "convertedMessages e chatData = Inr ?ms"
    using assms(6,7) by (simp add: convertedMessages_def)
  have "?ms \<noteq> []"
    using assms(6) by (cases "chat_history chatData") (simp_all add: item_messages_def)
  with c assms(2-5) have "history_try e project ident (net (get_chats_request e (the (token br))))
                            = Inr ?ms"
    by (simp add: history_try_def)
  with assms(1) have "messages (fst (fetchChatHistory project ident e net (st, br))) = ?ms"
    by (simp add: fetchChatHistory_def Let_def)
  then show ?thesis by (simp add: replay_items)
qed

text \<open>The preview of a chat is the query of its first stored turn.\<close>

lemma lastMessage_first:
  "chat_history chat = item # rest \<Longrightarrow> user_query item \<noteq> [] \<Longrightarrow> lastMessage chat = user_query item"
  by (simp add: lastMessage_def)

text \<open>
  Claim C5, its last part, at a conversation of two turns: the conversation page replays
  "What is X?" first and "And why?" last, so the most recent turn is "And why?"; the
  layout's preview \<^verbatim>\<open>last_message\<close> of the same conversation is "What is X?", the query of
  the first stored turn.
\<close>

theorem preview_is_first_turn:
  "map m_content (messages (fst (fetchChatHistory ''demo'' ''c1'' example_env
        (reply 200 (WithChats [example_conversation])) (example_chat, example_browser))))
     = [JStr ''What is X?'', JStr ''X is a letter.'', JStr ''And why?'', JStr ''By convention.'']
   \<and> map last_message (chats (fst (DashboardLayout_effect example_env
        (reply 200 (WithChats [example_conversation])) (example_layout, example_browser))))
     = [Some ''What is X?'']"
  by (simp add: fetchChatHistory_def history_try_def convertedMessages_def item_messages_def
        stamp_def get_chats_request_def DashboardLayout_effect_def fetchChats_def
        fetchChats_try_def normalizeChat_def lastMessage_def example_conversation_def
        example_layout_def example_defs handler_defs Let_def)

subsection \<open>Uploading\<close>

lemma requests_upload:
  "requests (snd (upload_handleSubmit e net (st, br))) =
     requests br @
       (if trim (projectName st) \<noteq> [] \<and> files st \<noteq> [] \<and> \<not> no_token (token br)
        then [upload_request e (projectName st) (files st) (the (token br))] else [])"
  by (simp add: upload_handleSubmit_def Let_def send_def show_toast_def router_push_def
        split: sum.split)

text \<open>
  Claim C7. A request to \<^verbatim>\<open>/data-ingest\<close> is sent only when the trimmed project name is not
  empty and at least one file is selected; when one is sent, its form data is the project
  name, as typed, followed by every selected file in order, each under \<^verbatim>\<open>files_data\<close>.
\<close>

theorem upload_request_contract:
  assumes "requests (snd (upload_handleSubmit e net (st, br))) \<noteq> requests br"
  shows "trim (projectName st) \<noteq> [] \<and> length (files st) \<ge> 1
         \<and> (\<exists>req. requests (snd (upload_handleSubmit e net (st, br))) = requests br @ [req]
               \<and> req_url req = API_URL e @ ''/data-ingest''
               \<and> req_body req =
                   Some ((''project_name'', FText (projectName st))
                         # map (\<lambda>file. (''files_data'', FFile file)) (files st)))"
proof -
  have c: "trim (projectName st) \<noteq> [] \<and> files st \<noteq> [] \<and> \<not> no_token (token br)"
    using assms requests_upload [of e net st br] by (auto split: if_splits)
  then have "requests (snd (upload_handleSubmit e net (st, br)))
               = requests br @ [upload_request e (projectName st) (files st) (the (token br))]"
    using requests_upload [of e net st br] by simp
  with c show ?thesis
    by (cases "files st") (simp_all add: upload_request_def upload_formData_def)
qed

theorem upload_request_contract_witness:
  "requests (snd (upload_handleSubmit example_env (reply 200 (JObj [])) (example_upload, example_browser)))
     \<noteq> requests example_browser
   \<and> map req_body (requests (snd (upload_handleSubmit example_env (reply 200 (JObj []))
                                     (example_upload, example_browser))))
       = [Some [(''project_name'', FText ''demo''),
                (''files_data'', FFile \<lparr>file_name = ''notes.txt'', file_type = ''text/plain'',
                                        file_bytes = [104, 105]\<rparr>)]]"
proof -
  have h: "requests (snd (upload_handleSubmit example_env (reply 200 (JObj []))
                            (example_upload, example_browser))) \<noteq> requests example_browser"
    by (simp add: requests_upload example_upload_def example_browser_def trim_def
          js_whitespace_def no_token_def)
  from upload_request_contract [OF h] h show ?thesis
    by (auto simp add: example_upload_def example_browser_def)
qed

subsection \<open>The stored token\<close>

lemma requests_fetchChatHistory:
  "requests (snd (fetchChatHistory project ident e net (st, br))) =
     requests br @ (if no_token (token br) then [] else [get_chats_request e (the (token br))])"
  by (simp add: fetchChatHistory_def Let_def send_def show_toast_def router_push_def
        split: sum.split)

lemma requests_DashboardLayout:
  "requests (snd (DashboardLayout_effect e net (st, br))) =
     requests br @ (if no_token (token br) then [] else [get_chats_request e (the (token br))])"
  by (simp add: DashboardLayout_effect_def fetchChats_def Let_def send_def show_toast_def
        router_push_def split: sum.split option.split)

lemma pushed_no_token:
  assumes "no_token (token br)"
  shows "trim (input cst) \<noteq> [] \<Longrightarrow>
           pushed (snd (handleSubmit route_id project e net (cst, br))) = pushed br @ [''/login'']
           \<and> requests (snd (handleSubmit route_id project e net (cst, br))) = requests br"
    and "pushed (snd (fetchChatHistory project ident e netc (cst, br))) = pushed br @ [''/login'']"
    and "trim (projectName ust) \<noteq> [] \<Longrightarrow> files ust \<noteq> [] \<Longrightarrow>
           pushed (snd (upload_handleSubmit e net (ust, br))) = pushed br @ [''/login'']"
    and "pushed (snd (DashboardLayout_effect e netc (lst, br))) = pushed br @ [''/login'']"
  using assms
  by (simp_all add: handleSubmit_def fetchChatHistory_def upload_handleSubmit_def
        DashboardLayout_effect_def Let_def router_push_def)

lemma unauthorized_fetchChats:
  assumes "\<not> no_token (token br)"
    and "netc (get_chats_request e (the (token br))) = Resolved r" and "status r = 401"
  shows "token (snd (DashboardLayout_effect e netc (lst, br))) = None"
    and "pushed (snd (DashboardLayout_effect e netc (lst, br))) = pushed br @ [''/login'']"
  using assms
  by (simp_all add: DashboardLayout_effect_def fetchChats_def fetchChats_try_def Let_def
        router_push_def send_def ok_def)

text \<open>
  Claim C8. With no stored token (none, or the empty string), each of the five places that
  talk to a protected endpoint (the two chat forms, the history load, the upload form and
  the layout's chat-list load) pushes \<^verbatim>\<open>/login\<close> and sends nothing. With a token, every
  request they send carries \<^verbatim>\<open>Authorization: Bearer <token>\<close>, and a 401 answer to the
  layout's chat-list request removes the stored token and pushes \<^verbatim>\<open>/login\<close>.
\<close>

theorem token_and_redirect:
  "(no_token (token br) \<longrightarrow>
      (trim (input cst) \<noteq> [] \<longrightarrow>
         pushed (snd (handleSubmit route_id project e net (cst, br))) = pushed br @ [''/login'']
         \<and> new_requests br (snd (handleSubmit route_id project e net (cst, br))) = [])
    \<and> pushed (snd (fetchChatHistory project ident e netc (cst, br))) = pushed br @ [''/login'']
    \<and> new_requests br (snd (fetchChatHistory project ident e netc (cst, br))) = []
    \<and> (trim (projectName ust) \<noteq> [] \<and> files ust \<noteq> [] \<longrightarrow>
         pushed (snd (upload_handleSubmit e net (ust, br))) = pushed br @ [''/login''])
    \<and> new_requests br (snd (upload_handleSubmit e net (ust, br))) = []
    \<and> pushed (snd (DashboardLayout_effect e netc (lst, br))) = pushed br @ [''/login'']
    \<and> new_requests br (snd (DashboardLayout_effect e netc (lst, br))) = [])
   \<and> (\<not> no_token (token br) \<longrightarrow>
        list_all (\<lambda>req. req_headers req = [(''Authorization'', ''Bearer '' @ the (token br))])
          (new_requests br (snd (handleSubmit route_id project e net (cst, br)))
           @ new_requests br (snd (fetchChatHistory project ident e netc (cst, br)))
           @ new_requests br (snd (upload_handleSubmit e net (ust, br)))
           @ new_requests br (snd (DashboardLayout_effect e netc (lst, br))))
        \<and> new_requests br (snd (DashboardLayout_effect e netc (lst, br)))
            = [get_chats_request e (the (token br))]
        \<and> (\<forall>r. netc (get_chats_request e (the (token br))) = Resolved r \<and> status r = 401 \<longrightarrow>
              token (snd (DashboardLayout_effect e netc (lst, br))) = None
              \<and> pushed (snd (DashboardLayout_effect e netc (lst, br))) = pushed br @ [''/login'']))"
proof (intro conjI impI allI)
  assume n: "no_token (token br)"
  show "pushed (snd (fetchChatHistory project ident e netc (cst, br))) = pushed br @ [''/login'']"
    and "pushed (snd (DashboardLayout_effect e netc (lst, br))) = pushed br @ [''/login'']"
    using pushed_no_token(2,4) [OF n] by simp_all
  show "new_requests br (snd (fetchChatHistory project ident e netc (cst, br))) = []"
    and "new_requests br (snd (upload_handleSubmit e net (ust, br))) = []"
    and "new_requests br (snd (DashboardLayout_effect e netc (lst, br))) = []"
    using n by (simp_all add: new_requests_def requests_fetchChatHistory requests_upload
        requests_DashboardLayout)
  {
    assume "trim (input cst) \<noteq> []"
    from pushed_no_token(1) [OF n this]
    show "pushed (snd (handleSubmit route_id project e net (cst, br))) = pushed br @ [''/login'']"
      and "new_requests br (snd (handleSubmit route_id project e net (cst, br))) = []"
      by (simp_all add: new_requests_def)
  }
  {
    assume "trim (projectName ust) \<noteq> [] \<and> files ust \<noteq> []"
    then show "pushed (snd (upload_handleSubmit e net (ust, br))) = pushed br @ [''/login'']"
      using pushed_no_token(3) [OF n] by simp
  }
next
  assume t: "\<not> no_token (token br)"
  have "new_requests br (snd (handleSubmit route_id project e net (cst, br)))
          = (if trim (input cst) = [] then []
             else [chat_request e route_id project (input cst) (the (token br))])"
    using requests_handleSubmit [OF _ t, of cst route_id project e net]
    by (simp add: new_requests_def handleSubmit_def)
  then show "list_all (\<lambda>req. req_headers req = [(''Authorization'', ''Bearer '' @ the (token br))])
          (new_requests br (snd (handleSubmit route_id project e net (cst, br)))
           @ new_requests br (snd (fetchChatHistory project ident e netc (cst, br)))
           @ new_requests br (snd (upload_handleSubmit e net (ust, br)))
           @ new_requests br (snd (DashboardLayout_effect e netc (lst, br))))"
    using t by (simp add: new_requests_def requests_fetchChatHistory requests_upload
        requests_DashboardLayout chat_request_def get_chats_request_def upload_request_def
        bearer_def)
  show "new_requests br (snd (DashboardLayout_effect e netc (lst, br)))
          = [get_chats_request e (the (token br))]"
    using t by (simp add: new_requests_def requests_DashboardLayout)
  fix r
  assume "netc (get_chats_request e (the (token br))) = Resolved r \<and> status r = 401"
  then show "token (snd (DashboardLayout_effect e netc (lst, br))) = None"
    and "pushed (snd (DashboardLayout_effect e netc (lst, br))) = pushed br @ [''/login'']"
    using unauthorized_fetchChats [OF t] by simp_all
qed

theorem token_and_redirect_witness:
  "\<not> no_token (token example_browser)
   \<and> no_token (token (example_browser\<lparr>token := None\<rparr>))
   \<and> trim (input example_chat) \<noteq> []
   \<and> pushed (snd (handleSubmit None ''demo'' example_env (reply 200 (JObj []))
                    (example_chat, example_browser\<lparr>token := None\<rparr>))) = [''/login'']
   \<and> new_requests (example_browser\<lparr>token := None\<rparr>)
        (snd (handleSubmit None ''demo'' example_env (reply 200 (JObj []))
                (example_chat, example_browser\<lparr>token := None\<rparr>))) = []
   \<and> new_requests example_browser
        (snd (DashboardLayout_effect example_env (reply 401 OtherShape)
                (example_layout, example_browser)))
       = [get_chats_request example_env ''jwt'']
   \<and> token (snd (DashboardLayout_effect example_env (reply 401 OtherShape)
                   (example_layout, example_browser))) = None
   \<and> pushed (snd (DashboardLayout_effect example_env (reply 401 OtherShape)
                    (example_layout, example_browser))) = [''/login'']"
proof -
  have h1: "\<not> no_token (token example_browser)"
    by (simp add: example_browser_def no_token_def)
  have h2: "no_token (token (example_browser\<lparr>token := None\<rparr>))"
    by (simp add: no_token_def)
  have h3: "trim (input example_chat) \<noteq> []"
    by (simp add: example_chat_def trim_def js_whitespace_def)
  have h4: "reply 401 OtherShape (get_chats_request example_env (the (token example_browser)))
              = Resolved \<lparr>status = 401, json_body = Inr OtherShape\<rparr>
            \<and> status \<lparr>status = 401, json_body = Inr OtherShape\<rparr> = 401"
    by (simp add: reply_def)
  from token_and_redirect
         [where br = "example_browser\<lparr>token := None\<rparr>" and cst = example_chat
            and route_id = None and project = "''demo''" and e = example_env
            and net = "reply 200 (JObj [])"] h2 h3
  have a: "pushed (snd (handleSubmit None ''demo'' example_env (reply 200 (JObj []))
                    (example_chat, example_browser\<lparr>token := None\<rparr>))) = [''/login'']
      \<and> new_requests (example_browser\<lparr>token := None\<rparr>)
        (snd (handleSubmit None ''demo'' example_env (reply 200 (JObj []))
                (example_chat, example_browser\<lparr>token := None\<rparr>))) = []"
    by (simp add: example_browser_def)
  from token_and_redirect
         [where br = example_browser and e = example_env and netc = "reply 401 OtherShape"
            and lst = example_layout] h1 h4
  have b: "new_requests example_browser
        (snd (DashboardLayout_effect example_env (reply 401 OtherShape)
                (example_layout, example_browser)))
       = [get_chats_request example_env ''jwt'']
     \<and> token (snd (DashboardLayout_effect example_env (reply 401 OtherShape)
                   (example_layout, example_browser))) = None
     \<and> pushed (snd (DashboardLayout_effect example_env (reply 401 OtherShape)
                    (example_layout, example_browser))) = [''/login'']"
    by (simp add: example_browser_def)
  from h1 h2 h3 a b show ?thesis by blast
qed

subsection \<open>Failures\<close>








subsection \<open>Reaching the API\<close>

lemma js_includes_iff: "js_includes s p \<longleftrightarrow> (\<exists>a b. s = a @ p @ b)"
proof (induction s)
  case Nil
  then show ?case by simp
next
  case (Cons c cs)
  show ?case
  proof
    assume "js_includes (c # cs) p"
    then consider "take (length p) (c # cs) = p" | "js_includes cs p" by auto
    then show "\<exists>a b. c # cs = a @ p @ b"
    proof cases
      case 1
      then have "c # cs = [] @ p @ drop (length p) (c # cs)"
        by (metis append_Nil append_take_drop_id)
      then show ?thesis by blast
    next
      case 2
      then obtain a b where "cs = a @ p @ b" using Cons.IH by auto
      then have "c # cs = (c # a) @ p @ b" by simp
      then show ?thesis by blast
    qed
  next
    assume "\<exists>a b. c # cs = a @ p @ b"
    then obtain a b where ab: "c # cs = a @ p @ b" by auto
    show "js_includes (c # cs) p"
    proof (cases a)
      case Nil
      with ab have "take (length p) (c # cs) = p" by simp
      then show ?thesis by simp
    next
      case (Cons x xs)
      with ab have "cs = xs @ p @ b" by simp
      then have "js_includes cs p" using Cons.IH by auto
      then show ?thesis by simp
    qed
  qed
qed

text \<open>
  Claim C10. \<^verbatim>\<open>isApiReachable\<close> always returns a boolean. Outside a browser, or when the host
  name contains \<^verbatim>\<open>vercel.app\<close>, \<^verbatim>\<open>localhost\<close> or \<^verbatim>\<open>127.0.0.1\<close>, it returns false and sends
  nothing. Otherwise it sends one GET request under a 3000 ms abort timer and returns true
  exactly when the fetch resolves, before the abort, with an ok status; a rejection, the
  abort and a non-ok response all give false.
\<close>

theorem isApiReachable_never_throws:
  "(\<exists>b. returned (isApiReachable e net) = Inr b)
   \<and> (\<not> isBrowser e \<or> js_includes (hostname e) ''vercel.app''
        \<or> js_includes (hostname e) ''localhost'' \<or> js_includes (hostname e) ''127.0.0.1''
       \<longrightarrow> returned (isApiReachable e net) = Inr False \<and> sent (isApiReachable e net) = [])
   \<and> (isBrowser e \<and> \<not> js_includes (hostname e) ''vercel.app''
        \<and> \<not> js_includes (hostname e) ''localhost'' \<and> \<not> js_includes (hostname e) ''127.0.0.1''
       \<longrightarrow> sent (isApiReachable e net) = [probe_request e]
           \<and> timers (isApiReachable e net) = [3000]
           \<and> (returned (isApiReachable e net) = Inr True
                \<longleftrightarrow> (\<exists>r. net (probe_request e) = ProbeResolved r \<and> ok r))
           \<and> (net (probe_request e) = ProbeAborted \<or> (\<exists>t. net (probe_request e) = ProbeRejected t)
                \<or> (\<exists>r. net (probe_request e) = ProbeResolved r \<and> \<not> ok r)
               \<longrightarrow> returned (isApiReachable e net) = Inr False))"
  by (cases "net (probe_request e)")
     (auto simp add: isApiReachable_def isPreviewEnvironment_def probe_try_def split: sum.split)

theorem isApiReachable_never_throws_witness:
  "isBrowser example_env \<and> \<not> js_includes (hostname example_env) ''vercel.app''
   \<and> \<not> js_includes (hostname example_env) ''localhost''
   \<and> \<not> js_includes (hostname example_env) ''127.0.0.1''
   \<and> ok \<lparr>status = 200, json_body = Inr JNull\<rparr>
   \<and> returned (isApiReachable example_env (probe_reply 200)) = Inr True
   \<and> sent (isApiReachable example_env (probe_reply 200)) = [probe_request example_env]
   \<and> returned (isApiReachable (example_env\<lparr>hostname := ''rag.vercel.app''\<rparr>) (probe_reply 200))
       = Inr False
   \<and> sent (isApiReachable (example_env\<lparr>hostname := ''rag.vercel.app''\<rparr>) (probe_reply 200)) = []"
proof -
  have h: "isBrowser example_env \<and> \<not> js_includes (hostname example_env) ''vercel.app''
     \<and> \<not> js_includes (hostname example_env) ''localhost''
     \<and> \<not> js_includes (hostname example_env) ''127.0.0.1''"
    by (simp add: example_env_def)
  have k: "ok \<lparr>status = 200, json_body = Inr JNull\<rparr>"
    by (simp add: ok_def)
  have p: "probe_reply 200 (probe_request example_env)
             = ProbeResolved \<lparr>status = 200, json_body = Inr JNull\<rparr>"
    by (simp add: probe_reply_def)
  have v: "js_includes (hostname (example_env\<lparr>hostname := ''rag.vercel.app''\<rparr>)) ''vercel.app''"
    by simp
  from isApiReachable_never_throws [of example_env "probe_reply 200"] h k p
  have a: "returned (isApiReachable example_env (probe_reply 200)) = Inr True
     \<and> sent (isApiReachable example_env (probe_reply 200)) = [probe_request example_env]"
    by simp
  from isApiReachable_never_throws [of "example_env\<lparr>hostname := ''rag.vercel.app''\<rparr>" "probe_reply 200"] v
  have b: "returned (isApiReachable (example_env\<lparr>hostname := ''rag.vercel.app''\<rparr>) (probe_reply 200))
       = Inr False
     \<and> sent (isApiReachable (example_env\<lparr>hostname := ''rag.vercel.app''\<rparr>) (probe_reply 200)) = []"
    by blast
  from h k a b show ?thesis by blast
qed

subsection \<open>Isolation of projects in the vector store\<close>

lemmas store_defs = ingest_file_def ensure_collection_def upsert_def make_chunks_def
  empty_store_def search_def similarity_def delete_collection_def









text \<open>Ingesting a batch of files, with whatever failures, stays within the reachable
  stores.\<close>

lemma ingest_reachable: "reachable st \<Longrightarrow> reachable (snd (ingest st p fs))"
proof (induction fs arbitrary: st)
  case Nil
  then show ?case by simp
next
  case (Cons f fs)
  show ?case
  proof (cases "ingest_file st p f")
    case (Inl err)
    with Cons.IH [OF Cons.prems] show ?thesis by (auto split: prod.split)
  next
    case (Inr st1)
    with Cons.prems have "reachable st1" by (rule reachable.ingested)
    from Cons.IH [OF this] Inr show ?thesis by (auto split: prod.split)
  qed
qed












lemma example_store1_ingested: "ingest_file (empty_store 2) ''alpha'' [(''first text'', [1, 0])] = Inr example_store1"
  by (simp add: store_defs example_store1_def alpha_chunk_def)

lemma example_store_ingested: "ingest_file example_store1 ''beta'' [(''second text'', [0, 1])] = Inr example_store"
  by (simp add: store_defs example_store1_def example_store_def alpha_chunk_def beta_chunk_def)

lemma example_store_reachable: "reachable example_store"
proof -
  from reachable.start [of 2] example_store1_ingested have "reachable example_store1" by (rule reachable.ingested)
  from this example_store_ingested show ?thesis by (rule reachable.ingested)
qed



end
